theory Spec2Isabelle
  imports Complex_Main "HOL-Library.Multiset" "HOL-Library.Char_ord" "HOL-Library.List_Lexorder"
begin

section \<open>The image sequence of studioqt/imagesequence.py\<close>

text \<open>
  The class \<open>ImageSequence\<close> is embedded as a record of its attributes and one HOL
  function for each method. A method that mutates the object takes the object and returns
  the outcome of the call together with the object as the call leaves it: Python keeps the
  assignments made before a \<open>raise\<close>, so the object is returned in both cases.

  Python strings are lists of code points. The model uses \<open>string\<close>, whose
  characters are the code points below 256 (Latin-1), ordered by their code; this is
  where Python 3 and the model agree exactly. Python integers are \<open>int\<close>.
  The float division of \<open>percent\<close> is modelled by exact division of rationals.
\<close>

subsection \<open>Errors and outcomes\<close>

datatype error =
    AttributeError
  | ZeroDivisionError
  | ValueError
  | TypeError
  | KeyError
  | BadZipFile

type_synonym 'a result = "error + 'a"

subsection \<open>The object\<close>

text \<open>
  \<open>QTimer\<close> belongs to the toolkit. The model keeps what the class sets and reads of it:
  the single-shot flag, whether it is running, and the interval of the last
  \<open>start(msec)\<close>.
\<close>

record qtimer =
  single_shot :: bool
  active :: bool
  interval :: "rat option"

text \<open>
  An in-memory archive (\<open>BytesIO\<close> written through \<open>ZipFile\<close>) is the list of its
  entries, name and bytes, in the order they were written.
\<close>

type_synonym archive = "(string \<times> string) list"

record image_sequence =
  self_fps :: int
  self_timer :: "qtimer option"
  self_frame :: int
  self_frames :: "string list"
  self_dirname :: "string option"
  self_paused :: bool
  self_bytes :: archive
  self_bytes_read :: "archive option"
  emitted :: "int list"

text \<open>
  \<open>emitted\<close> is the log of the \<open>frameChanged\<close> signal: every \<open>emit(n)\<close> appends
  \<open>n\<close>. The attributes are as \<open>__init__\<close> sets them before it looks at the path.
\<close>

definition DEFAULT_FPS :: int where
  "DEFAULT_FPS = 24"

definition new_sequence :: image_sequence where
  "new_sequence =
     \<lparr> self_fps = DEFAULT_FPS, self_timer = None, self_frame = 0, self_frames = [],
       self_dirname = None, self_paused = False, self_bytes = [], self_bytes_read = None,
       emitted = [] \<rparr>"

subsection \<open>Read accessors\<close>

definition frameCount :: "image_sequence \<Rightarrow> int" where
  "frameCount s = int (length (self_frames s))"

definition frames :: "image_sequence \<Rightarrow> string list" where
  "frames s = self_frames s"

definition dirname :: "image_sequence \<Rightarrow> string option" where
  "dirname s = self_dirname s"

definition paused :: "image_sequence \<Rightarrow> bool" where
  "paused s = self_paused s"

definition currentFrameNumber :: "image_sequence \<Rightarrow> int" where
  "currentFrameNumber s = self_frame s"

definition firstFrame :: "image_sequence \<Rightarrow> string" where
  "firstFrame s = (case self_frames s of [] \<Rightarrow> [] | f # _ \<Rightarrow> f)"

text \<open>
  Python's \<open>xs[i]\<close>: a negative index counts from the end, and an index outside
  \<open>-len(xs) .. len(xs) - 1\<close> raises \<open>IndexError\<close>, which is \<open>None\<close> here because
  \<open>currentFilename\<close>, the only caller, catches exactly that and returns \<open>None\<close>.
\<close>

definition py_index :: "'a list \<Rightarrow> int \<Rightarrow> 'a option" where
  "py_index xs i =
     (let n = int (length xs); j = (if i < 0 then n + i else i)
      in if 0 \<le> j \<and> j < n then Some (xs ! nat j) else None)"

definition currentFilename :: "image_sequence \<Rightarrow> string option" where
  "currentFilename s = py_index (self_frames s) (currentFrameNumber s)"

text \<open>
  \<open>percent\<close>: the first branch returns the integer 1; the second divides by
  \<open>len(self._frames)\<close>, and Python raises \<open>ZeroDivisionError\<close> when that is 0.
\<close>

definition percent :: "image_sequence \<Rightarrow> rat result" where
  "percent s =
     (if int (length (self_frames s)) = self_frame s + 1 then Inr 1
      else if length (self_frames s) = 0 then Inl ZeroDivisionError
      else Inr (of_int (int (length (self_frames s)) + self_frame s)
                  / of_int (int (length (self_frames s))) - 1))"

subsection \<open>Playback\<close>

definition jumpToFrame :: "int \<Rightarrow> image_sequence \<Rightarrow> unit result \<times> image_sequence" where
  "jumpToFrame frame s =
     (let frame' = (if frame \<ge> frameCount s then 0 else frame)
      in (Inr (), s\<lparr>self_frame := frame', emitted := emitted s @ [frame']\<rparr>))"

definition frameChanged_slot :: "image_sequence \<Rightarrow> unit result \<times> image_sequence" where
  "frameChanged_slot s =
     (if self_frames s = [] then (Inr (), s)
      else jumpToFrame (self_frame s + 1) s)"

text \<open>
  \<open>frameChanged_slot\<close> is the method \<open>_frameChanged\<close> (the attribute
  \<open>frameChanged\<close> is the signal).

  \<open>self._timer.stop()\<close> on a timer that was never created is an attribute access on
  \<open>None\<close>.
\<close>

definition timer_stop :: "image_sequence \<Rightarrow> unit result \<times> image_sequence" where
  "timer_stop s =
     (case self_timer s of
        None \<Rightarrow> (Inl AttributeError, s)
      | Some t \<Rightarrow> (Inr (), s\<lparr>self_timer := Some (t\<lparr>active := False\<rparr>)\<rparr>))"

definition timer_start :: "rat option \<Rightarrow> image_sequence \<Rightarrow> unit result \<times> image_sequence" where
  "timer_start msec s =
     (case self_timer s of
        None \<Rightarrow> (Inl AttributeError, s)
      | Some t \<Rightarrow>
          (Inr (), s\<lparr>self_timer :=
             Some (t\<lparr>active := True,
                     interval := (case msec of None \<Rightarrow> interval t | Some m \<Rightarrow> Some m)\<rparr>)\<rparr>))"

definition release_buffer :: "image_sequence \<Rightarrow> image_sequence" where
  "release_buffer s = s\<lparr>self_bytes := [], self_bytes_read := None\<rparr>"

definition reset :: "image_sequence \<Rightarrow> unit result \<times> image_sequence" where
  "reset s =
     (let s1 = (if self_timer s = None
                then s\<lparr>self_timer := Some \<lparr>single_shot = False, active = False, interval = None\<rparr>\<rparr>
                else s);
          s2 = (if \<not> self_paused s1 then (release_buffer s1)\<lparr>self_frame := 0\<rparr> else s1)
      in timer_stop s2)"

definition pause :: "image_sequence \<Rightarrow> unit result \<times> image_sequence" where
  "pause s = timer_stop (s\<lparr>self_paused := True\<rparr>)"

definition resume :: "image_sequence \<Rightarrow> unit result \<times> image_sequence" where
  "resume s =
     (if self_paused s then timer_start None (s\<lparr>self_paused := False\<rparr>)
      else (Inr (), s))"

definition stop :: "image_sequence \<Rightarrow> unit result \<times> image_sequence" where
  "stop s = timer_stop (release_buffer s)"

definition running :: "image_sequence \<Rightarrow> bool" where
  "running s = (case self_timer s of None \<Rightarrow> False | Some t \<Rightarrow> active t)"

subsection \<open>Natural ordering\<close>

text \<open>
  \<open>naturalSortItems\<close> sorts by the key
  \<open>[convert(c) for c in re.split('([0-9]+)', key)]\<close> with
  \<open>convert = lambda text: int(text) if text.isdigit() else text\<close>.

  The pattern \<open>[0-9]\<close> matches the ten ASCII digits only. \<open>str.isdigit\<close> is wider:
  it holds of a non-empty string all of whose characters have the Unicode property
  Numeric_Type Digit or Decimal; below code point 256 these are the ASCII digits and the
  superscripts U+00B2, U+00B3 and U+00B9. \<open>int\<close> accepts decimal digits only and
  raises \<open>ValueError\<close> on a superscript.
\<close>

definition ascii_digit :: "char \<Rightarrow> bool" where
  "ascii_digit c = (48 \<le> (of_char c :: nat) \<and> (of_char c :: nat) \<le> 57)"

definition unicode_digit :: "char \<Rightarrow> bool" where
  "unicode_digit c = (ascii_digit c \<or> (of_char c :: nat) \<in> {178, 179, 185})"

definition isdigit :: "string \<Rightarrow> bool" where
  "isdigit text = (text \<noteq> [] \<and> list_all unicode_digit text)"

text \<open>
  \<open>re.split('([0-9]+)', s)\<close>: the text before the first digit run, then, for every
  digit run, the run itself (the pattern's group is kept) and the text up to the next
  run or the end. The pieces outside the runs may be empty.
\<close>

function re_split :: "string \<Rightarrow> string list" where
  "re_split s =
     (let pre = takeWhile (\<lambda>c. \<not> ascii_digit c) s;
          rest = dropWhile (\<lambda>c. \<not> ascii_digit c) s
      in if rest = [] then [pre]
         else pre # takeWhile ascii_digit rest # re_split (dropWhile ascii_digit rest))"
  by pat_completeness auto
termination
proof (relation "measure length")
  show "wf (measure length)" by simp
next
  fix s pre rest
  assume r: "rest = dropWhile (\<lambda>c. \<not> ascii_digit c) s" and ne: "rest \<noteq> []"
  from ne obtain c cs where rc: "rest = c # cs" by (cases rest) auto
  have "ascii_digit c" using r rc by (auto simp: dropWhile_eq_Cons_conv dest: sym)
  then have "length (dropWhile ascii_digit rest) < length rest"
    using rc by (simp add: length_dropWhile_le le_imp_less_Suc)
  also have "length rest \<le> length s" using r by (simp add: length_dropWhile_le)
  finally show "(dropWhile ascii_digit rest, s) \<in> measure length" by simp
qed

datatype token = TInt int | TStr string

definition decimal :: "string \<Rightarrow> int" where
  "decimal text = foldl (\<lambda>n c. 10 * n + (int (of_char c) - 48)) 0 text"

definition convert :: "string \<Rightarrow> token result" where
  "convert text =
     (if isdigit text
      then (if list_all ascii_digit text then Inr (TInt (decimal text)) else Inl ValueError)
      else Inr (TStr text))"

text \<open>A list comprehension evaluates left to right and stops at the first raise.\<close>

fun convert_all :: "string list \<Rightarrow> token list result" where
  "convert_all [] = Inr []"
| "convert_all (c # cs) =
     (case convert c of
        Inl e \<Rightarrow> Inl e
      | Inr t \<Rightarrow> (case convert_all cs of Inl e \<Rightarrow> Inl e | Inr ts \<Rightarrow> Inr (t # ts)))"

definition alphanum_key :: "string \<Rightarrow> token list result" where
  "alphanum_key key = convert_all (re_split key)"

text \<open>
  Python's \<open><\<close>: integers by value, strings lexicographically by code point, and a
  \<open>TypeError\<close> between an integer and a string. Lists compare at the first position
  where they differ (found with \<open>==\<close>, which never raises); a proper prefix is smaller.
\<close>

fun tok_lt :: "token \<Rightarrow> token \<Rightarrow> bool result" where
  "tok_lt (TInt a) (TInt b) = Inr (a < b)"
| "tok_lt (TStr a) (TStr b) = Inr (a < b)"
| "tok_lt (TInt a) (TStr b) = Inl TypeError"
| "tok_lt (TStr a) (TInt b) = Inl TypeError"

fun key_lt :: "token list \<Rightarrow> token list \<Rightarrow> bool result" where
  "key_lt [] [] = Inr False"
| "key_lt [] (y # ys) = Inr True"
| "key_lt (x # xs) [] = Inr False"
| "key_lt (x # xs) (y # ys) = (if x = y then key_lt xs ys else tok_lt x y)"

text \<open>
  \<open>list.sort(key=...)\<close> computes the key of every item first, in order, then sorts
  with \<open><\<close> on the keys only, and is stable. The model is the stable insertion sort:
  an item goes in front of the first item whose key is not smaller than its own. The
  comparisons a sort makes matter only where one raises.
\<close>

fun keyed :: "string list \<Rightarrow> (token list \<times> string) list result" where
  "keyed [] = Inr []"
| "keyed (s # ss) =
     (case alphanum_key s of
        Inl e \<Rightarrow> Inl e
      | Inr k \<Rightarrow> (case keyed ss of Inl e \<Rightarrow> Inl e | Inr ks \<Rightarrow> Inr ((k, s) # ks)))"

fun insort_lt ::
  "(token list \<times> string) \<Rightarrow> (token list \<times> string) list \<Rightarrow> (token list \<times> string) list result"
where
  "insort_lt x [] = Inr [x]"
| "insort_lt x (y # ys) =
     (case key_lt (fst y) (fst x) of
        Inl e \<Rightarrow> Inl e
      | Inr False \<Rightarrow> Inr (x # y # ys)
      | Inr True \<Rightarrow> (case insort_lt x ys of Inl e \<Rightarrow> Inl e | Inr zs \<Rightarrow> Inr (y # zs)))"

fun sort_lt :: "(token list \<times> string) list \<Rightarrow> (token list \<times> string) list result" where
  "sort_lt [] = Inr []"
| "sort_lt (x # xs) = (case sort_lt xs of Inl e \<Rightarrow> Inl e | Inr ys \<Rightarrow> insort_lt x ys)"

definition naturalSortItems :: "string list \<Rightarrow> string list result" where
  "naturalSortItems items =
     (case keyed items of
        Inl e \<Rightarrow> Inl e
      | Inr ks \<Rightarrow> (case sort_lt ks of Inl e \<Rightarrow> Inl e | Inr r \<Rightarrow> Inr (map snd r)))"

text \<open>
  The order the sort is measured against: tokens as a linear order, integers by value,
  strings by the string order, and (only to make the order total; Python raises there)
  every integer below every string. Keys are then ordered as lists.
\<close>

instantiation token :: linorder
begin

fun less_eq_token :: "token \<Rightarrow> token \<Rightarrow> bool" where
  "less_eq_token (TInt a) (TInt b) = (a \<le> b)"
| "less_eq_token (TStr a) (TStr b) = (a \<le> b)"
| "less_eq_token (TInt a) (TStr b) = True"
| "less_eq_token (TStr a) (TInt b) = False"

definition less_token :: "token \<Rightarrow> token \<Rightarrow> bool" where
  "less_token x y = (x \<le> y \<and> \<not> y \<le> x)"

instance
proof
  fix x y z :: token
  show "(x < y) = (x \<le> y \<and> \<not> y \<le> x)" by (simp add: less_token_def)
  show "x \<le> x" by (cases x) simp_all
  show "x \<le> y \<Longrightarrow> y \<le> z \<Longrightarrow> x \<le> z" by (cases x; cases y; cases z) simp_all
  show "x \<le> y \<Longrightarrow> y \<le> x \<Longrightarrow> x = y" by (cases x; cases y) simp_all
  show "x \<le> y \<or> y \<le> x" by (cases x; cases y) auto
qed

end

text \<open>
  The key as a total function, for stating what the sort returns: the tokens of the
  pieces, where a piece that \<open>convert\<close> rejects stays a string.
\<close>

definition token_of :: "string \<Rightarrow> token" where
  "token_of text = (case convert text of Inr t \<Rightarrow> t | Inl e \<Rightarrow> TStr text)"

definition sort_key_of :: "string \<Rightarrow> token list" where
  "sort_key_of s = map token_of (re_split s)"

text \<open>
  A string is \<open>plain\<close> when \<open>str.isdigit\<close> and the pattern \<open>[0-9]\<close> agree on each
  of its characters: it has none of the three superscript digits. Every ASCII string is
  plain.
\<close>

definition plain :: "string \<Rightarrow> bool" where
  "plain s = list_all (\<lambda>c. unicode_digit c = ascii_digit c) s"

text \<open>
  The shape of a key: strings at the even positions, integers at the odd ones.
\<close>

fun alternates :: "token list \<Rightarrow> bool" where
  "alternates [] = True"
| "alternates [TStr a] = True"
| "alternates (TStr a # TInt n # ts) = alternates ts"
| "alternates ts = False"

subsection \<open>The sequence source\<close>

text \<open>
  The file system is outside the class; the model reads it through the five questions
  the class asks: \<open>zipfile.is_zipfile\<close>, \<open>os.path.isfile\<close>, \<open>os.path.isdir\<close>,
  \<open>os.listdir\<close>, and the entries of the archive at a path (\<open>ZipFile.namelist\<close> and
  \<open>ZipFile.read\<close>). Opening as an archive a path that \<open>is_zipfile\<close> rejects
  raises; reading a path it accepts does not.
\<close>

record filesystem =
  is_zipfile :: "string \<Rightarrow> bool"
  isfile :: "string \<Rightarrow> bool"
  isdir :: "string \<Rightarrow> bool"
  listdir :: "string \<Rightarrow> string list"
  zip_entries :: "string \<Rightarrow> archive"

text \<open>
  \<open>ZipFile.read(name)\<close>: the bytes of the entry written last under that name,
  \<open>KeyError\<close> when there is none (in particular for the name \<open>None\<close>).
\<close>

definition zip_read :: "archive \<Rightarrow> string option \<Rightarrow> string result" where
  "zip_read a name =
     (case name of
        None \<Rightarrow> Inl KeyError
      | Some n \<Rightarrow> (case map_of (rev a) n of None \<Rightarrow> Inl KeyError | Some d \<Rightarrow> Inr d))"

text \<open>Statement sequencing: a raise ends the method with the object as it is then.\<close>

definition and_then ::
  "unit result \<times> image_sequence \<Rightarrow> (image_sequence \<Rightarrow> unit result \<times> image_sequence)
     \<Rightarrow> unit result \<times> image_sequence"
where
  "and_then r f = (case fst r of Inl e \<Rightarrow> (Inl e, snd r) | Inr u \<Rightarrow> f (snd r))"

text \<open>
  The loop of \<open>setBytes\<close>: each name of the frame list is read from the archive on
  disk and appended to the archive in memory.
\<close>

fun writestr_all :: "archive \<Rightarrow> string list \<Rightarrow> archive \<Rightarrow> unit result \<times> archive" where
  "writestr_all src [] mem = (Inr (), mem)"
| "writestr_all src (n # ns) mem =
     (case zip_read src (Some n) of
        Inl e \<Rightarrow> (Inl e, mem)
      | Inr d \<Rightarrow> writestr_all src ns (mem @ [(n, d)]))"

definition setBytes :: "filesystem \<Rightarrow> string \<Rightarrow> image_sequence \<Rightarrow> unit result \<times> image_sequence" where
  "setBytes fs zip_file s =
     (if \<not> is_zipfile fs zip_file then (Inl BadZipFile, s)
      else
        let src = zip_entries fs zip_file;
            s1 = s\<lparr>self_frames := map fst src\<rparr>;
            w = writestr_all src (self_frames s1) (self_bytes s1);
            s2 = s1\<lparr>self_bytes := snd w\<rparr>
        in (case fst w of
              Inl e \<Rightarrow> (Inl e, s2)
            | Inr u \<Rightarrow> (Inr (), s2\<lparr>self_bytes_read := Some (self_bytes s2)\<rparr>)))"

text \<open>
  \<open>items.sort\<close> sorts the frame list in place; when a key raises, the list is as it
  was.
\<close>

definition sort_frames :: "image_sequence \<Rightarrow> unit result \<times> image_sequence" where
  "sort_frames s =
     (case naturalSortItems (self_frames s) of
        Inl e \<Rightarrow> (Inl e, s)
      | Inr ys \<Rightarrow> (Inr (), s\<lparr>self_frames := ys\<rparr>))"

definition setZipfile :: "filesystem \<Rightarrow> string \<Rightarrow> image_sequence \<Rightarrow> unit result \<times> image_sequence" where
  "setZipfile fs zip_sequence s =
     and_then (setBytes fs zip_sequence (s\<lparr>self_dirname := Some zip_sequence\<rparr>)) sort_frames"

definition setDirname :: "filesystem \<Rightarrow> string \<Rightarrow> image_sequence \<Rightarrow> unit result \<times> image_sequence" where
  "setDirname fs dir s =
     (let s1 = s\<lparr>self_dirname := Some dir\<rparr>
      in if isdir fs dir
         then sort_frames (s1\<lparr>self_frames := map (\<lambda>filename. dir @ ''/'' @ filename) (listdir fs dir)\<rparr>)
         else (Inr (), s1))"

definition setPath :: "filesystem \<Rightarrow> string \<Rightarrow> image_sequence \<Rightarrow> unit result \<times> image_sequence" where
  "setPath fs path s =
     (if is_zipfile fs path then setZipfile fs path s
      else if isfile fs path then (Inr (), s\<lparr>self_frame := 0, self_frames := [path]\<rparr>)
      else if isdir fs path then setDirname fs path s
      else (Inr (), s))"

text \<open>\<open>ImageSequence(path)\<close>: the constructor sets the path when it is not empty.\<close>

definition init :: "filesystem \<Rightarrow> string \<Rightarrow> unit result \<times> image_sequence" where
  "init fs path = (if path \<noteq> [] then setPath fs path new_sequence else (Inr (), new_sequence))"

definition start :: "filesystem \<Rightarrow> image_sequence \<Rightarrow> unit result \<times> image_sequence" where
  "start fs s =
     and_then (reset s) (\<lambda>s1.
     and_then (case self_dirname s1 of
                 None \<Rightarrow> (Inr (), s1)
               | Some d \<Rightarrow> if d \<noteq> [] then setPath fs d s1 else (Inr (), s1)) (\<lambda>s2.
       if self_timer s2 \<noteq> None
       then (if self_fps s2 = 0 then (Inl ZeroDivisionError, s2)
             else timer_start (Some (1000 / of_int (self_fps s2))) s2)
       else (Inr (), s2)))"

subsection \<open>Frame access\<close>

text \<open>
  Decoding belongs to the toolkit: a pixmap is what it was loaded from. With no current
  file name the path handed to \<open>QPixmap.load\<close> is \<open>None\<close>; what the toolkit makes of
  it is not modelled.
\<close>

datatype pixmap = FromData string | FromPath "string option"

definition archive_backed :: "filesystem \<Rightarrow> image_sequence \<Rightarrow> bool" where
  "archive_backed fs s =
     (case self_dirname s of None \<Rightarrow> False | Some d \<Rightarrow> d \<noteq> [] \<and> is_zipfile fs d)"

definition currentPixmap :: "filesystem \<Rightarrow> image_sequence \<Rightarrow> pixmap result" where
  "currentPixmap fs s =
     (if archive_backed fs s
      then (case self_bytes_read s of
              None \<Rightarrow> Inl AttributeError
            | Some h \<Rightarrow>
                (case zip_read h (currentFilename s) of
                   Inl e \<Rightarrow> Inl e
                 | Inr d \<Rightarrow> Inr (FromData d)))
      else Inr (FromPath (currentFilename s)))"

subsection \<open>The calls a client can make\<close>

datatype call =
    SetPath string
  | SetZipfile string
  | SetDirname string
  | Reset
  | Pause
  | Resume
  | Stop
  | Start
  | Tick
  | JumpToFrame int

fun perform :: "filesystem \<Rightarrow> call \<Rightarrow> image_sequence \<Rightarrow> unit result \<times> image_sequence" where
  "perform fs (SetPath p) s = setPath fs p s"
| "perform fs (SetZipfile p) s = setZipfile fs p s"
| "perform fs (SetDirname p) s = setDirname fs p s"
| "perform fs Reset s = reset s"
| "perform fs Pause s = pause s"
| "perform fs Resume s = resume s"
| "perform fs Stop s = stop s"
| "perform fs Start s = start fs s"
| "perform fs Tick s = frameChanged_slot s"
| "perform fs (JumpToFrame i) s = jumpToFrame i s"

text \<open>
  The invariant of the playback state, as the specification words it: the current index
  is a position of the frame list whenever the list is not empty.
\<close>

definition index_in_range :: "image_sequence \<Rightarrow> bool" where
  "index_in_range s =
     (self_frames s \<noteq> [] \<longrightarrow> 0 \<le> self_frame s \<and> self_frame s < frameCount s)"

subsection \<open>A concrete file system and concrete objects\<close>

text \<open>
  One archive \<open>seq.zip\<close> of three entries, one image file \<open>a.png\<close>, one directory
  \<open>shots\<close> of three files, and nothing else; the theorems below are run on it.
\<close>

definition example_fs :: filesystem where
  "example_fs =
     \<lparr> is_zipfile = (\<lambda>p. p = ''seq.zip''),
       isfile = (\<lambda>p. p = ''seq.zip'' \<or> p = ''a.png''),
       isdir = (\<lambda>p. p = ''shots''),
       listdir = (\<lambda>p. if p = ''shots'' then [''f2'', ''f10'', ''f1''] else []),
       zip_entries = (\<lambda>p. if p = ''seq.zip''
                           then [(''f2'', ''two''), (''f10'', ''ten''), (''f1'', ''one'')]
                           else []) \<rparr>"

definition single_file_sequence :: image_sequence where
  "single_file_sequence = snd (init example_fs ''a.png'')"


section \<open>Properties\<close>

subsection \<open>The concrete objects, evaluated\<close>

lemma example_fs_simps:
  "is_zipfile example_fs p = (p = ''seq.zip'')"
  "isfile example_fs p = (p = ''seq.zip'' \<or> p = ''a.png'')"
  "isdir example_fs p = (p = ''shots'')"
  by (simp_all add: example_fs_def)


lemma single_file_sequence_value:
  "single_file_sequence =
     \<lparr>self_fps = 24, self_timer = None, self_frame = 0, self_frames = [''a.png''],
      self_dirname = None, self_paused = False, self_bytes = [], self_bytes_read = None,
      emitted = []\<rparr>"
  by code_simp

subsection \<open>Playback position\<close>

text \<open>
  C1. \<open>jumpToFrame(i)\<close> sets the current index to 0 when \<open>i \<ge> frameCount()\<close> and to
  \<open>i\<close> otherwise, changes nothing else, returns, and emits exactly one notification,
  which carries the new index; \<open>jumpToFrame(frameCount())\<close> leaves the index 0.
\<close>

theorem jumpToFrame_wraps_once:
  "jumpToFrame i s =
     (Inr (), s\<lparr>self_frame := (if i \<ge> frameCount s then 0 else i),
                emitted := emitted s @ [if i \<ge> frameCount s then 0 else i]\<rparr>)
   \<and> currentFrameNumber (snd (jumpToFrame (frameCount s) s)) = 0
   \<and> emitted (snd (jumpToFrame i s)) = emitted s @ [currentFrameNumber (snd (jumpToFrame i s))]"
  by (simp add: jumpToFrame_def currentFrameNumber_def Let_def)



subsection \<open>The empty sequence\<close>

lemma empty_sequence_calls:
  assumes "self_frames s = []"
  shows "jumpToFrame i s =
           (Inr (), s\<lparr>self_frame := (if 0 \<le> i then 0 else i),
                      emitted := emitted s @ [if 0 \<le> i then 0 else i]\<rparr>)"
    and "currentFilename s = None"
    and "percent s = (if self_frame s = - 1 then Inr 1 else Inl ZeroDivisionError)"
  using assms
  by (auto simp add: jumpToFrame_def frameCount_def currentFilename_def py_index_def percent_def)

text \<open>
  C2. On the sequence that \<open>ImageSequence("")\<close> constructs, which is empty,
  \<open>jumpToFrame(0)\<close> returns, leaving the index 0 and one notification, and
  \<open>currentFilename()\<close> returns \<open>None\<close>; but \<open>percent()\<close> raises
  \<open>ZeroDivisionError\<close>: the division by \<open>len(self._frames)\<close> has no guard, where
  \<open>_frameChanged\<close>, \<open>firstFrame\<close> and \<open>currentFilename\<close> each have one.
\<close>

theorem percent_empty_raises:
  "fst (init fs []) = Inr ()
   \<and> frameCount (snd (init fs [])) = 0
   \<and> percent (snd (init fs [])) = Inl ZeroDivisionError
   \<and> currentFilename (snd (init fs [])) = None
   \<and> jumpToFrame 0 (snd (init fs [])) = (Inr (), new_sequence\<lparr>emitted := [0]\<rparr>)"
  by (simp add: init_def new_sequence_def frameCount_def percent_def currentFilename_def
      py_index_def currentFrameNumber_def jumpToFrame_def)

subsection \<open>Setting the path\<close>

text \<open>
  C5, as stated, fails: \<open>setPath\<close> with a path of none of the three kinds has no
  branch to take and leaves the frame list as it was, here with one frame.
\<close>

theorem setPath_unsupported_keeps_frames_counterexample:
  "\<not> is_zipfile example_fs ''missing'' \<and> \<not> isfile example_fs ''missing''
   \<and> \<not> isdir example_fs ''missing''
   \<and> fst (setPath example_fs ''missing'' single_file_sequence) = Inr ()
   \<and> frameCount (snd (setPath example_fs ''missing'' single_file_sequence)) = 1"
  by (simp add: example_fs_simps setPath_def single_file_sequence_value frameCount_def)

text \<open>
  C5, amended. For every state and every path of none of the three kinds,
  \<open>setPath(path)\<close> returns without raising and leaves the object, the frame list
  included, unchanged; a sequence constructed on such a path has \<open>frameCount() == 0\<close>.
\<close>

theorem setPath_unsupported:
  assumes "\<not> is_zipfile fs path" and "\<not> isfile fs path" and "\<not> isdir fs path"
  shows "setPath fs path s = (Inr (), s)
         \<and> fst (init fs path) = Inr () \<and> frameCount (snd (init fs path)) = 0"
  using assms by (simp add: setPath_def init_def new_sequence_def frameCount_def)

theorem setPath_unsupported_witness:
  "\<not> is_zipfile example_fs ''missing'' \<and> \<not> isfile example_fs ''missing''
   \<and> \<not> isdir example_fs ''missing''
   \<and> setPath example_fs ''missing'' single_file_sequence = (Inr (), single_file_sequence)
   \<and> frameCount (snd (init example_fs ''missing'')) = 0"
  using setPath_unsupported [of example_fs "''missing''" single_file_sequence]
  by (simp add: example_fs_simps)

end
